theory Spec2Isabelle
  imports Complex_Main
begin

section \<open>JavaScript values\<close>

text \<open>
  gaia-filter (\<^verbatim>\<open>lib/filter.js\<close>) compiles a MongoDB-style query object into a stack of
  tests and evaluates the stack against data. Queries and data are plain JavaScript
  values: \<^verbatim>\<open>undefined\<close>, \<^verbatim>\<open>null\<close>, booleans, numbers, strings, arrays and object
  literals.

  \<^item> A number is a \<^typ>\<open>real\<close>. \<^verbatim>\<open>NaN\<close> is not a value of the data; where an operator
    computes a number that may be \<^verbatim>\<open>NaN\<close> the result is a \<^typ>\<open>real option\<close> with
    \<open>None\<close> for \<^verbatim>\<open>NaN\<close>. The infinities are left out.
  \<^item> An array or an object carries a reference, because \<^verbatim>\<open>===\<close> compares arrays and
    objects by identity and not by contents.
  \<^item> An object is the list of its own enumerable properties in the order in which
    \<^verbatim>\<open>for ... in\<close> enumerates them; the keys of one object are distinct. The members that
    every object inherits from \<^verbatim>\<open>Object.prototype\<close> (\<^verbatim>\<open>constructor\<close>, \<^verbatim>\<open>toString\<close>,
    \<^verbatim>\<open>valueOf\<close>, ...) are not modelled: no key of a query or of the data has one of
    their names.
\<close>

type_synonym ref = nat

datatype jsval =
    Undefined
  | Null
  | Bool bool
  | Num real
  | Str string
  | Arr ref "jsval list"
  | Obj ref "(string \<times> jsval) list"

text \<open>
  The only exception the engine raises on these values is a \<^verbatim>\<open>TypeError\<close> (reading a
  property of \<^verbatim>\<open>undefined\<close> or \<^verbatim>\<open>null\<close>, calling something that is not a function).
  \<open>Malformed\<close> is not a JavaScript exception: it marks a test stack that \<^verbatim>\<open>parseFilter\<close>
  never builds (see \<open>callFn\<close> below).
\<close>

datatype error = TypeError | Malformed

text \<open>
  What the code takes from outside the repository: \<^verbatim>\<open>properties.get\<close> of the package
  tea-properties (the deep path lookup), and the conversions between strings and numbers of
  the language (\<^verbatim>\<open>StringToNumber\<close> gives \<open>None\<close> for \<^verbatim>\<open>NaN\<close>). They are parameters of
  the model; every theorem holds for all of them.
\<close>

record env =
  properties_get :: "jsval \<Rightarrow> string \<Rightarrow> jsval"
  StringToNumber :: "string \<Rightarrow> real option"
  NumberToString :: "real \<Rightarrow> string"

subsection \<open>typeof, truthiness, property enumeration\<close>

text \<open>\<^verbatim>\<open>'string' == typeof p || 'number' == typeof p || 'boolean' == typeof p\<close>\<close>

fun is_literal :: "jsval \<Rightarrow> bool" where
  "is_literal (Str s) = True"
| "is_literal (Num n) = True"
| "is_literal (Bool b) = True"
| "is_literal v = False"

text \<open>\<^verbatim>\<open>ToBoolean\<close>: the falsy values are \<^verbatim>\<open>undefined\<close>, \<^verbatim>\<open>null\<close>, \<^verbatim>\<open>false\<close>, \<^verbatim>\<open>0\<close> and \<^verbatim>\<open>''\<close>.\<close>

fun truthy :: "jsval \<Rightarrow> bool" where
  "truthy Undefined = False"
| "truthy Null = False"
| "truthy (Bool b) = b"
| "truthy (Num n) = (n \<noteq> 0)"
| "truthy (Str s) = (s \<noteq> [])"
| "truthy (Arr r xs) = True"
| "truthy (Obj r kvs) = True"

definition digit_char :: "nat \<Rightarrow> char" where
  "digit_char d = ''0123456789'' ! d"

text \<open>The decimal name of an array index, as a property key.\<close>

fun show_nat :: "nat \<Rightarrow> string" where
  "show_nat n =
     (if n < 10 then [digit_char n] else show_nat (n div 10) @ [digit_char (n mod 10)])"

declare show_nat.simps [simp del]

text \<open>
  \<^verbatim>\<open>for (var k in v)\<close> with \<^verbatim>\<open>v[k]\<close>: the own enumerable properties of a value. An array
  and a string enumerate their indices; \<^verbatim>\<open>undefined\<close>, \<^verbatim>\<open>null\<close>, numbers and booleans
  enumerate nothing.
\<close>

fun entries :: "jsval \<Rightarrow> (string \<times> jsval) list" where
  "entries (Obj r kvs) = kvs"
| "entries (Arr r xs) = zip (map show_nat [0..<length xs]) xs"
| "entries (Str s) = zip (map show_nat [0..<length s]) (map (\<lambda>c. Str [c]) s)"
| "entries v = []"

subsection \<open>Conversions\<close>

fun join_with :: "string \<Rightarrow> string list \<Rightarrow> string" where
  "join_with sep [] = []"
| "join_with sep [s] = s"
| "join_with sep (s # t # ts) = s @ sep @ join_with sep (t # ts)"

text \<open>
  \<^verbatim>\<open>ToString\<close>. An array is the join of its elements with a comma, \<^verbatim>\<open>undefined\<close> and
  \<^verbatim>\<open>null\<close> elements giving the empty string; an object literal is \<^verbatim>\<open>[object Object]\<close>.
\<close>

fun ToString :: "env \<Rightarrow> jsval \<Rightarrow> string" where
  "ToString E Undefined = ''undefined''"
| "ToString E Null = ''null''"
| "ToString E (Bool b) = (if b then ''true'' else ''false'')"
| "ToString E (Num n) = NumberToString E n"
| "ToString E (Str s) = s"
| "ToString E (Arr r xs) =
     join_with '',''
       (map (\<lambda>x. case x of Undefined \<Rightarrow> [] | Null \<Rightarrow> [] | _ \<Rightarrow> ToString E x) xs)"
| "ToString E (Obj r kvs) = ''[object Object]''"

text \<open>\<^verbatim>\<open>ToPrimitive\<close>: \<^verbatim>\<open>valueOf\<close> of an array or object literal is the object itself, so the
  primitive is its string.\<close>

fun ToPrimitive :: "env \<Rightarrow> jsval \<Rightarrow> jsval" where
  "ToPrimitive E (Arr r xs) = Str (ToString E (Arr r xs))"
| "ToPrimitive E (Obj r kvs) = Str (ToString E (Obj r kvs))"
| "ToPrimitive E v = v"

text \<open>\<^verbatim>\<open>ToNumber\<close>, \<open>None\<close> for \<^verbatim>\<open>NaN\<close>.\<close>

definition ToNumber :: "env \<Rightarrow> jsval \<Rightarrow> real option" where
  "ToNumber E v =
     (case ToPrimitive E v of
        Undefined \<Rightarrow> None
      | Null \<Rightarrow> Some 0
      | Bool b \<Rightarrow> Some (if b then 1 else 0)
      | Num n \<Rightarrow> Some n
      | Str s \<Rightarrow> StringToNumber E s
      | _ \<Rightarrow> None)"

subsection \<open>Operators\<close>

text \<open>Strings compare by their code units, a proper prefix first.\<close>

fun str_less :: "string \<Rightarrow> string \<Rightarrow> bool" where
  "str_less [] [] = False"
| "str_less [] (y # ys) = True"
| "str_less (x # xs) [] = False"
| "str_less (x # xs) (y # ys) =
     (if x = y then str_less xs ys else (of_char x :: nat) < of_char y)"

text \<open>
  The abstract relational comparison \<^verbatim>\<open>x < y\<close> of the language: \<open>None\<close> is its
  \<^verbatim>\<open>undefined\<close> result, when an operand is \<^verbatim>\<open>NaN\<close>. Two strings compare as strings,
  everything else as numbers.
\<close>

definition js_less :: "env \<Rightarrow> jsval \<Rightarrow> jsval \<Rightarrow> bool option" where
  "js_less E x y =
     (case (ToPrimitive E x, ToPrimitive E y) of
        (Str s, Str t) \<Rightarrow> Some (str_less s t)
      | (px, py) \<Rightarrow>
          (case (ToNumber E px, ToNumber E py) of
             (Some a, Some b) \<Rightarrow> Some (a < b)
           | _ \<Rightarrow> None))"

text \<open>\<^verbatim>\<open>x === y\<close>\<close>

fun StrictEquals :: "jsval \<Rightarrow> jsval \<Rightarrow> bool" where
  "StrictEquals Undefined Undefined = True"
| "StrictEquals Null Null = True"
| "StrictEquals (Bool a) (Bool b) = (a = b)"
| "StrictEquals (Num a) (Num b) = (a = b)"
| "StrictEquals (Str a) (Str b) = (a = b)"
| "StrictEquals (Arr r xs) (Arr r' ys) = (r = r')"
| "StrictEquals (Obj r kvs) (Obj r' kvs') = (r = r')"
| "StrictEquals x y = False"

fun is_nullish :: "jsval \<Rightarrow> bool" where
  "is_nullish Undefined = True"
| "is_nullish Null = True"
| "is_nullish v = False"

fun is_object :: "jsval \<Rightarrow> bool" where
  "is_object (Arr r xs) = True"
| "is_object (Obj r kvs) = True"
| "is_object v = False"

text \<open>
  \<^verbatim>\<open>x == y\<close>: \<^verbatim>\<open>undefined\<close> and \<^verbatim>\<open>null\<close> equal each other and nothing else; two objects
  are equal when they are the same object; a string and an object compare as strings;
  every other pair compares as numbers.
\<close>

definition LooseEquals :: "env \<Rightarrow> jsval \<Rightarrow> jsval \<Rightarrow> bool" where
  "LooseEquals E x y =
     (if is_nullish x \<or> is_nullish y then is_nullish x \<and> is_nullish y
      else if is_object x \<and> is_object y then StrictEquals x y
      else (case (ToPrimitive E x, ToPrimitive E y) of
              (Str s, Str t) \<Rightarrow> s = t
            | (px, py) \<Rightarrow>
                (case (ToNumber E px, ToNumber E py) of
                   (Some a, Some b) \<Rightarrow> a = b
                 | _ \<Rightarrow> False)))"

text \<open>
  \<^verbatim>\<open>n % d\<close> on numbers: \<^verbatim>\<open>NaN\<close> when an operand is \<^verbatim>\<open>NaN\<close> or the divisor is zero,
  else the remainder of the division truncated towards zero.
\<close>

definition js_rem :: "real option \<Rightarrow> real option \<Rightarrow> real option" where
  "js_rem a b =
     (case (a, b) of
        (Some n, Some d) \<Rightarrow>
          if d = 0 then None
          else Some (n - d * of_int (if 0 \<le> n / d then \<lfloor>n / d\<rfloor> else \<lceil>n / d\<rceil>))
      | _ \<Rightarrow> None)"

fun lookup :: "(string \<times> jsval) list \<Rightarrow> string \<Rightarrow> jsval" where
  "lookup [] k = Undefined"
| "lookup ((k', v) # kvs) k = (if k' = k then v else lookup kvs k)"

text \<open>\<^verbatim>\<open>v.length\<close>\<close>

fun js_length :: "jsval \<Rightarrow> error + jsval" where
  "js_length Undefined = Inl TypeError"
| "js_length Null = Inl TypeError"
| "js_length (Arr r xs) = Inr (Num (of_nat (length xs)))"
| "js_length (Str s) = Inr (Num (of_nat (length s)))"
| "js_length (Obj r kvs) = Inr (lookup kvs ''length'')"
| "js_length v = Inr Undefined"

text \<open>\<^verbatim>\<open>v[i]\<close> for an index \<open>i\<close>\<close>

fun js_index :: "jsval \<Rightarrow> nat \<Rightarrow> error + jsval" where
  "js_index Undefined i = Inl TypeError"
| "js_index Null i = Inl TypeError"
| "js_index (Arr r xs) i = Inr (if i < length xs then xs ! i else Undefined)"
| "js_index (Str s) i = Inr (if i < length s then Str [s ! i] else Undefined)"
| "js_index (Obj r kvs) i = Inr (lookup kvs (show_nat i))"
| "js_index v i = Inr Undefined"

text \<open>
  The values \<^verbatim>\<open>v[0], v[1], ...\<close> that a loop
  \<^verbatim>\<open>for (var i = 0; i < v.length; i++) { ... v[i] ... }\<close> visits. Reading \<^verbatim>\<open>v.length\<close>
  throws on \<^verbatim>\<open>undefined\<close> and \<^verbatim>\<open>null\<close>; a number or a boolean has no length and the
  loop does not run; an object is read through its \<^verbatim>\<open>length\<close> property, converted to a
  number by the comparison \<^verbatim>\<open>i < v.length\<close>.
\<close>

fun elems :: "env \<Rightarrow> jsval \<Rightarrow> error + jsval list" where
  "elems E Undefined = Inl TypeError"
| "elems E Null = Inl TypeError"
| "elems E (Arr r xs) = Inr xs"
| "elems E (Str s) = Inr (map (\<lambda>c. Str [c]) s)"
| "elems E (Obj r kvs) =
     Inr (case ToNumber E (lookup kvs ''length'') of
            None \<Rightarrow> []
          | Some n \<Rightarrow> map (\<lambda>i. lookup kvs (show_nat i)) [0..<nat \<lceil>n\<rceil>])"
| "elems E v = Inr []"

text \<open>Whether the string \<open>s\<close> occurs in \<open>t\<close>.\<close>

fun is_prefix :: "string \<Rightarrow> string \<Rightarrow> bool" where
  "is_prefix [] t = True"
| "is_prefix (x # xs) [] = False"
| "is_prefix (x # xs) (y # ys) = (x = y \<and> is_prefix xs ys)"

fun occurs_in :: "string \<Rightarrow> string \<Rightarrow> bool" where
  "occurs_in s [] = (s = [])"
| "occurs_in s (y # ys) = (is_prefix s (y # ys) \<or> occurs_in s ys)"

text \<open>
  \<^verbatim>\<open>~x.indexOf(y)\<close> as a condition: it is truthy when \<^verbatim>\<open>indexOf\<close> finds \<open>y\<close>. An array
  searches with \<^verbatim>\<open>===\<close>, a string searches for the string of \<open>y\<close>; no other value has a
  method \<^verbatim>\<open>indexOf\<close>, and calling it is a \<^verbatim>\<open>TypeError\<close>.
\<close>

fun has_indexOf :: "env \<Rightarrow> jsval \<Rightarrow> jsval \<Rightarrow> error + bool" where
  "has_indexOf E (Arr r xs) y = Inr (list_ex (\<lambda>x. StrictEquals x y) xs)"
| "has_indexOf E (Str s) y = Inr (occurs_in (ToString E y) s)"
| "has_indexOf E x y = Inl TypeError"

section \<open>The comparators\<close>

text \<open>
  \<^verbatim>\<open>Filter.comparators\<close>: the table of the operators, keyed by name. \<open>C_gt\<close> is
  \<^verbatim>\<open>$gt\<close>, and so on.
\<close>

datatype comparator =
    C_gt | C_gte | C_lt | C_lte | C_all | C_exists | C_mod | C_eq | C_ne | C_in | C_nin
  | C_size | C_or | C_nor | C_and

definition comparators :: "string \<Rightarrow> comparator option" where
  "comparators name =
     map_of
       [(''$gt'', C_gt), (''$gte'', C_gte), (''$lt'', C_lt), (''$lte'', C_lte),
        (''$all'', C_all), (''$exists'', C_exists), (''$mod'', C_mod), (''$eq'', C_eq),
        (''$ne'', C_ne), (''$in'', C_in), (''$nin'', C_nin), (''$size'', C_size),
        (''$or'', C_or), (''$nor'', C_nor), (''$and'', C_and)] name"

text \<open>\<^verbatim>\<open>TRAVERSABLE[test]\<close> as a condition.\<close>

definition TRAVERSABLE :: "string \<Rightarrow> bool" where
  "TRAVERSABLE name = (name = ''$and'' \<or> name = ''$or'' \<or> name = ''$nor'')"

text \<open>\<^verbatim>\<open>fn.length\<close>: the number of parameters the comparator declares.\<close>

fun fn_length :: "comparator \<Rightarrow> nat" where
  "fn_length C_or = 1"
| "fn_length C_nor = 1"
| "fn_length C_and = 1"
| "fn_length c = 2"

text \<open>\<^verbatim>\<open>return a > b\<close>, \<^verbatim>\<open>a >= b\<close>, \<^verbatim>\<open>a < b\<close>, \<^verbatim>\<open>a <= b\<close>. An undefined comparison is
  \<^verbatim>\<open>false\<close> for each of the four.\<close>

definition c_gt :: "env \<Rightarrow> jsval \<Rightarrow> jsval \<Rightarrow> bool" where
  "c_gt E a b = (js_less E b a = Some True)"

definition c_gte :: "env \<Rightarrow> jsval \<Rightarrow> jsval \<Rightarrow> bool" where
  "c_gte E a b = (js_less E a b = Some False)"

definition c_lt :: "env \<Rightarrow> jsval \<Rightarrow> jsval \<Rightarrow> bool" where
  "c_lt E a b = (js_less E a b = Some True)"

definition c_lte :: "env \<Rightarrow> jsval \<Rightarrow> jsval \<Rightarrow> bool" where
  "c_lte E a b = (js_less E b a = Some False)"

text \<open>
  \<^verbatim>\<open>for (var i = 0; i < b.length; i++) { if (!~a.indexOf(b[i])) return false; } return true;\<close>
\<close>

fun all_loop :: "env \<Rightarrow> jsval \<Rightarrow> jsval list \<Rightarrow> error + bool" where
  "all_loop E a [] = Inr True"
| "all_loop E a (x # xs) =
     (case has_indexOf E a x of
        Inl e \<Rightarrow> Inl e
      | Inr found \<Rightarrow> if \<not> found then Inr False else all_loop E a xs)"

definition c_all :: "env \<Rightarrow> jsval \<Rightarrow> jsval \<Rightarrow> error + bool" where
  "c_all E a b = (case elems E b of Inl e \<Rightarrow> Inl e | Inr bs \<Rightarrow> all_loop E a bs)"

text \<open>\<^verbatim>\<open>return !!a == b\<close>\<close>

definition c_exists :: "env \<Rightarrow> jsval \<Rightarrow> jsval \<Rightarrow> bool" where
  "c_exists E a b = LooseEquals E (Bool (truthy a)) b"

text \<open>\<^verbatim>\<open>return a % b[0] == b[1]\<close>\<close>

definition c_mod :: "env \<Rightarrow> jsval \<Rightarrow> jsval \<Rightarrow> error + bool" where
  "c_mod E a b =
     (case js_index b 0 of
        Inl e \<Rightarrow> Inl e
      | Inr b0 \<Rightarrow>
          (case js_index b 1 of
             Inl e \<Rightarrow> Inl e
           | Inr b1 \<Rightarrow>
               Inr (case js_rem (ToNumber E a) (ToNumber E b0) of
                      None \<Rightarrow> False
                    | Some m \<Rightarrow> LooseEquals E (Num m) b1)))"

text \<open>\<^verbatim>\<open>return a === b\<close> and \<^verbatim>\<open>return a !== b\<close>\<close>

definition c_eq :: "jsval \<Rightarrow> jsval \<Rightarrow> bool" where
  "c_eq a b = StrictEquals a b"

definition c_ne :: "jsval \<Rightarrow> jsval \<Rightarrow> bool" where
  "c_ne a b = (\<not> StrictEquals a b)"

text \<open>\<^verbatim>\<open>return ~b.indexOf(a) ? true : false\<close> and \<^verbatim>\<open>return ~b.indexOf(a) ? false : true\<close>\<close>

definition c_in :: "env \<Rightarrow> jsval \<Rightarrow> jsval \<Rightarrow> error + bool" where
  "c_in E a b = (case has_indexOf E b a of Inl e \<Rightarrow> Inl e | Inr found \<Rightarrow> Inr found)"

definition c_nin :: "env \<Rightarrow> jsval \<Rightarrow> jsval \<Rightarrow> error + bool" where
  "c_nin E a b = (case has_indexOf E b a of Inl e \<Rightarrow> Inl e | Inr found \<Rightarrow> Inr (\<not> found))"

text \<open>
  \<^verbatim>\<open>return (a && a.length && b) ? a.length == b : false\<close>. The guard \<^verbatim>\<open>a &&\<close> keeps
  \<^verbatim>\<open>a.length\<close> from being read on \<^verbatim>\<open>undefined\<close> and \<^verbatim>\<open>null\<close>, so nothing is thrown.
\<close>

definition c_size :: "env \<Rightarrow> jsval \<Rightarrow> jsval \<Rightarrow> bool" where
  "c_size E a b =
     (if truthy a then
        (case js_length a of
           Inl e \<Rightarrow> False
         | Inr len \<Rightarrow> if truthy len \<and> truthy b then LooseEquals E len b else False)
      else False)"

text \<open>
  \<^verbatim>\<open>$or\<close>, \<^verbatim>\<open>$nor\<close> and \<^verbatim>\<open>$and\<close> run over their one argument with a result variable:
  \<^verbatim>\<open>var res = false; for (...) { var fn = a[i]; if (fn) res = true; } return res;\<close>
  for \<^verbatim>\<open>$or\<close>; \<^verbatim>\<open>$nor\<close> starts from \<^verbatim>\<open>true\<close> and sets \<^verbatim>\<open>false\<close>; \<^verbatim>\<open>$and\<close> starts from
  \<^verbatim>\<open>true\<close> and sets \<^verbatim>\<open>false\<close> on \<^verbatim>\<open>!fn\<close>.
\<close>

fun or_loop :: "jsval list \<Rightarrow> bool \<Rightarrow> bool" where
  "or_loop [] res = res"
| "or_loop (x # xs) res = or_loop xs (if truthy x then True else res)"

fun nor_loop :: "jsval list \<Rightarrow> bool \<Rightarrow> bool" where
  "nor_loop [] res = res"
| "nor_loop (x # xs) res = nor_loop xs (if truthy x then False else res)"

fun and_loop :: "jsval list \<Rightarrow> bool \<Rightarrow> bool" where
  "and_loop [] res = res"
| "and_loop (x # xs) res = and_loop xs (if \<not> truthy x then False else res)"

definition c_or :: "env \<Rightarrow> jsval \<Rightarrow> error + bool" where
  "c_or E a = (case elems E a of Inl e \<Rightarrow> Inl e | Inr xs \<Rightarrow> Inr (or_loop xs False))"

definition c_nor :: "env \<Rightarrow> jsval \<Rightarrow> error + bool" where
  "c_nor E a = (case elems E a of Inl e \<Rightarrow> Inl e | Inr xs \<Rightarrow> Inr (nor_loop xs True))"

definition c_and :: "env \<Rightarrow> jsval \<Rightarrow> error + bool" where
  "c_and E a = (case elems E a of Inl e \<Rightarrow> Inl e | Inr xs \<Rightarrow> Inr (and_loop xs True))"

text \<open>The call \<^verbatim>\<open>fn(a, b)\<close>. A comparator of one parameter does not read \<open>b\<close>.\<close>

fun apply_fn :: "env \<Rightarrow> comparator \<Rightarrow> jsval \<Rightarrow> jsval \<Rightarrow> error + bool" where
  "apply_fn E C_gt a b = Inr (c_gt E a b)"
| "apply_fn E C_gte a b = Inr (c_gte E a b)"
| "apply_fn E C_lt a b = Inr (c_lt E a b)"
| "apply_fn E C_lte a b = Inr (c_lte E a b)"
| "apply_fn E C_all a b = c_all E a b"
| "apply_fn E C_exists a b = Inr (c_exists E a b)"
| "apply_fn E C_mod a b = c_mod E a b"
| "apply_fn E C_eq a b = Inr (c_eq a b)"
| "apply_fn E C_ne a b = Inr (c_ne a b)"
| "apply_fn E C_in a b = c_in E a b"
| "apply_fn E C_nin a b = c_nin E a b"
| "apply_fn E C_size a b = Inr (c_size E a b)"
| "apply_fn E C_or a b = c_or E a"
| "apply_fn E C_nor a b = c_nor E a"
| "apply_fn E C_and a b = c_and E a"

section \<open>The test stack\<close>

text \<open>
  \<^verbatim>\<open>parseQuery\<close> returns an array of objects \<^verbatim>\<open>{ test, path }\<close> (\<open>Qry\<close>; a missing
  \<^verbatim>\<open>path\<close> is \<open>None\<close>), where \<^verbatim>\<open>test\<close> is the array that \<^verbatim>\<open>parseFilter\<close> returns, of
  objects \<^verbatim>\<open>{ fn, params, traverse }\<close> (\<open>Test\<close>). \<^verbatim>\<open>fn\<close> is \<open>None\<close> when the table has no
  such comparator (\<^verbatim>\<open>undefined\<close>). \<^verbatim>\<open>params\<close> is \<^verbatim>\<open>traverse ? st : params\<close>: the array
  \<^verbatim>\<open>st\<close> (\<open>Nested\<close>) exactly when \<^verbatim>\<open>traverse\<close> is true, the raw argument of the query
  (\<open>Raw\<close>) when it is false; so the flag is read off \<open>params\<close>. An element of \<^verbatim>\<open>st\<close> is
  what \<^verbatim>\<open>st.push(nq)\<close> pushed: a stack of \<^verbatim>\<open>parseQuery\<close>, or \<^verbatim>\<open>undefined\<close> (\<open>None\<close>).
\<close>

datatype test_def = Test (fn_of: "comparator option") (params_of: params)
  and params = Raw jsval | Nested "qry list option list"
  and qry = Qry (test_of: "test_def list") (path_of: "string option")

fun traverse_of :: "test_def \<Rightarrow> bool" where
  "traverse_of (Test f (Nested st)) = True"
| "traverse_of (Test f (Raw v)) = False"

text \<open>\<^verbatim>\<open>cmd[0] == '$'\<close>\<close>

fun is_operator :: "string \<Rightarrow> bool" where
  "is_operator [] = False"
| "is_operator (c # cs) = (c = CHR ''$'')"

section \<open>parseQuery and parseFilter\<close>

text \<open>
  The two functions call each other: \<^verbatim>\<open>parseQuery\<close> parses the value of each key with
  \<^verbatim>\<open>parseFilter\<close>, and \<^verbatim>\<open>parseFilter\<close> parses each object in the argument of
  \<^verbatim>\<open>$and\<close>, \<^verbatim>\<open>$or\<close> and \<^verbatim>\<open>$nor\<close> with \<^verbatim>\<open>parseQuery\<close>. The recursion descends into
  the query; the two weights below bound it: the largest value among the properties still
  to visit, and the largest element that is not a literal.
\<close>

fun max_value_size :: "(string \<times> jsval) list \<Rightarrow> nat" where
  "max_value_size [] = 0"
| "max_value_size ((k, v) # es) = max (size v) (max_value_size es)"

fun max_nested_size :: "jsval list \<Rightarrow> nat" where
  "max_nested_size [] = 0"
| "max_nested_size (p # ps) =
     max (if is_literal p then 0 else Suc (size p)) (max_nested_size ps)"

lemma max_value_size_zip: "max_value_size (zip ks xs) \<le> size_list size xs"
proof (induction xs arbitrary: ks)
  case Nil
  show ?case by simp
next
  case (Cons x xs)
  show ?case
  proof (cases ks)
    case Nil
    then show ?thesis by simp
  next
    case (Cons k ks')
    then show ?thesis using Cons.IH [of ks'] by simp
  qed
qed

lemma max_value_size_chars: "max_value_size (zip ks (map (\<lambda>c. Str [c]) s)) = 0"
proof (induction s arbitrary: ks)
  case Nil
  show ?case by simp
next
  case (Cons c s)
  show ?case
  proof (cases ks)
    case Nil
    then show ?thesis by simp
  next
    case (Cons k ks')
    then show ?thesis using Cons.IH [of ks'] by simp
  qed
qed

lemma max_value_size_props:
  "max_value_size kvs \<le> size_list (size_prod (\<lambda>x. 0) size) kvs"
  by (induction kvs) auto

lemma max_value_size_entries: "max_value_size (entries v) \<le> size v"
  by (cases v)
     (simp_all add: max_value_size_chars le_SucI max_value_size_zip max_value_size_props)

lemma size_lookup: "size (lookup kvs k) \<le> size_list (size_prod (\<lambda>x. 0) size) kvs"
  by (induction kvs) auto

lemma max_nested_size_list: "max_nested_size xs \<le> size_list size xs"
  by (induction xs) auto

lemma max_nested_size_chars: "max_nested_size (map (\<lambda>c. Str [c]) s) = 0"
  by (induction s) auto

lemma max_nested_size_lookups:
  "max_nested_size (map (\<lambda>i. lookup kvs (f i)) js)
     \<le> Suc (size_list (size_prod (\<lambda>x. 0) size) kvs)"
  by (induction js) (auto simp: size_lookup)

lemma max_nested_size_elems: "elems E v = Inr ps \<Longrightarrow> max_nested_size ps \<le> size v"
  by (cases v)
     (auto simp: max_nested_size_chars max_nested_size_lookups le_SucI max_nested_size_list
           split: option.splits)

text \<open>
  \<^item> \<open>parseQuery\<close>: the loop \<^verbatim>\<open>for (var cmd in query)\<close> is \<open>parseQuery_loop\<close> over the
    properties still to visit; the result is the \<^verbatim>\<open>stack\<close> of the pushed \<^verbatim>\<open>qry\<close>
    objects, in order. An exception leaves the function at once.
  \<^item> \<open>parseFilter\<close> takes the properties of its argument: it is called on \<^verbatim>\<open>query\<close>, on
    \<^verbatim>\<open>params\<close> and on the object literal \<^verbatim>\<open>{ $eq: params }\<close>, which has the one
    property. Its loop \<^verbatim>\<open>for (var test in query)\<close> is \<open>parseFilter_loop\<close>. The variable
    \<^verbatim>\<open>nq\<close> is declared with \<^verbatim>\<open>var\<close> and without a value inside the loop body: it
    belongs to the function, starts as \<^verbatim>\<open>undefined\<close> (\<open>None\<close>) and keeps its value
    from one iteration to the next, so the loop carries it.
  \<^item> \<open>parseFilter_args\<close> is the inner loop \<^verbatim>\<open>for (var i = 0; i < params.length; i++)\<close>
    over the elements \<^verbatim>\<open>p\<close>, with the variables \<^verbatim>\<open>traverse\<close>, \<^verbatim>\<open>nq\<close> and \<^verbatim>\<open>st\<close>.
\<close>

function parseQuery :: "env \<Rightarrow> jsval \<Rightarrow> error + qry list"
  and parseQuery_loop :: "env \<Rightarrow> jsval \<Rightarrow> (string \<times> jsval) list \<Rightarrow> error + qry list"
  and parseFilter :: "env \<Rightarrow> (string \<times> jsval) list \<Rightarrow> error + test_def list"
  and parseFilter_loop ::
    "env \<Rightarrow> (string \<times> jsval) list \<Rightarrow> qry list option \<Rightarrow> error + test_def list"
  and parseFilter_args ::
    "env \<Rightarrow> jsval list \<Rightarrow> bool \<Rightarrow> qry list option \<Rightarrow> qry list option list \<Rightarrow>
       error + bool \<times> qry list option \<times> qry list option list"
where
  "parseQuery E query = parseQuery_loop E query (entries query)"
| "parseQuery_loop E query [] = Inr []"
| "parseQuery_loop E query ((cmd, params) # rest) =
     (case (if is_operator cmd then parseFilter E (entries query)
            else if is_literal params then parseFilter E [(''$eq'', params)]
            else parseFilter E (entries params)) of
        Inl e \<Rightarrow> Inl e
      | Inr t \<Rightarrow>
          (case parseQuery_loop E query rest of
             Inl e \<Rightarrow> Inl e
           | Inr stack \<Rightarrow> Inr (Qry t (if is_operator cmd then None else Some cmd) # stack)))"
| "parseFilter E query = parseFilter_loop E query None"
| "parseFilter_loop E [] nq = Inr []"
| "parseFilter_loop E ((test, params) # rest) nq =
     (if TRAVERSABLE test then
        (case elems E params of
           Inl e \<Rightarrow> Inl e
         | Inr ps \<Rightarrow>
             (case parseFilter_args E ps True nq [] of
                Inl e \<Rightarrow> Inl e
              | Inr (traverse, nq', st) \<Rightarrow>
                  (case parseFilter_loop E rest nq' of
                     Inl e \<Rightarrow> Inl e
                   | Inr stack \<Rightarrow>
                       Inr (Test (comparators test) (if traverse then Nested st else Raw params)
                            # stack))))
      else
        (case parseFilter_loop E rest nq of
           Inl e \<Rightarrow> Inl e
         | Inr stack \<Rightarrow> Inr (Test (comparators test) (Raw params) # stack)))"
| "parseFilter_args E [] traverse nq st = Inr (traverse, nq, st)"
| "parseFilter_args E (p # ps) traverse nq st =
     (if is_literal p then parseFilter_args E ps False nq (st @ [nq])
      else
        (case parseQuery E p of
           Inl e \<Rightarrow> Inl e
         | Inr q \<Rightarrow> parseFilter_args E ps traverse (Some q) (st @ [Some q])))"
  by pat_completeness auto
termination
proof (relation "measures
    [case_sum
       (case_sum (\<lambda>(E, q). 5 * size q + 4)
          (\<lambda>(E, q, es). 5 * max (size q) (max_value_size es) + 3))
       (case_sum (\<lambda>(E, es). 5 * max_value_size es + 2)
          (case_sum (\<lambda>(E, es, nq). 5 * max_value_size es + 1)
             (\<lambda>(E, ps, tr, nq, st). 5 * max_nested_size ps))),
     case_sum
       (case_sum (\<lambda>(E, q). 0) (\<lambda>(E, q, es). length es))
       (case_sum (\<lambda>(E, es). 0)
          (case_sum (\<lambda>(E, es, nq). length es) (\<lambda>(E, ps, tr, nq, st). length ps)))]",
    goal_cases)
  case 1
  show ?case by (simp; arith?)
next
  case (2 E query)
  show ?case using max_value_size_entries [of query] by simp
next
  case (3 E query cmd params rest)
  show ?case using max_value_size_entries [of query] by (simp; arith?)
next
  case (4 E query cmd params rest)
  show ?case by (simp; arith?)
next
  case (5 E query cmd params rest)
  show ?case using max_value_size_entries [of params] by (simp; arith?)
next
  case 6
  show ?case by (simp; arith?)
next
  case 7
  show ?case by (simp; arith?)
next
  case (8 E test params rest nq b)
  then show ?case using max_nested_size_elems [of E params b] by (simp; arith?)
next
  case 9
  show ?case by (simp; arith?)
next
  case 10
  show ?case by (simp; arith?)
next
  case 11
  show ?case by (simp; arith?)
next
  case 12
  then show ?case by (simp; arith?)
next
  case 13
  then show ?case by (simp; arith?)
qed

section \<open>testFilter and \_testFilter\<close>

text \<open>
  The variable \<^verbatim>\<open>params\<close> of \<^verbatim>\<open>_testFilter\<close> at the call of the comparator: the raw
  argument of the query (\<open>Inl\<close>), or, after a traversal, the new array \<^verbatim>\<open>p\<close> of the
  boolean results (\<open>Inr\<close>).

  \<^verbatim>\<open>if (test.fn.length === 1 && !test.fn(params)) res = false;
   else if (test.fn.length > 1 && !test.fn(val, params)) res = false;\<close>

  \<open>callFn\<close> is the call in this statement: \<^verbatim>\<open>test.fn(params)\<close> for a comparator of one
  parameter, \<^verbatim>\<open>test.fn(val, params)\<close> for one of two. Reading \<^verbatim>\<open>test.fn.length\<close> throws
  when \<^verbatim>\<open>test.fn\<close> is \<^verbatim>\<open>undefined\<close>. \<^verbatim>\<open>parseFilter\<close> sets \<^verbatim>\<open>traverse\<close> only for
  \<^verbatim>\<open>$and\<close>, \<^verbatim>\<open>$or\<close> and \<^verbatim>\<open>$nor\<close>, whose comparators have one parameter; a traversed
  test with another comparator is not a stack of \<^verbatim>\<open>parseFilter\<close> and is \<open>Malformed\<close>.
\<close>

definition callFn ::
    "env \<Rightarrow> comparator option \<Rightarrow> jsval \<Rightarrow> jsval + bool list \<Rightarrow> error + bool" where
  "callFn E fn val params =
     (case fn of
        None \<Rightarrow> Inl TypeError
      | Some c \<Rightarrow>
          (case params of
             Inl raw \<Rightarrow>
               if fn_length c = 1 then apply_fn E c raw Undefined else apply_fn E c val raw
           | Inr p \<Rightarrow>
               (case c of
                  C_or \<Rightarrow> Inr (or_loop (map Bool p) False)
                | C_nor \<Rightarrow> Inr (nor_loop (map Bool p) True)
                | C_and \<Rightarrow> Inr (and_loop (map Bool p) True)
                | _ \<Rightarrow> Inl Malformed)))"

text \<open>
  \<^item> \<open>testFilter\<close>: the loop over \<^verbatim>\<open>stack\<close> is \<open>testFilter_loop\<close>, with the variable
    \<^verbatim>\<open>pass\<close>. \<^verbatim>\<open>filter.path ? properties.get(val, filter.path) : val\<close>: a missing path
    and the empty string are falsy. Every element of the stack is tested: the loop has no
    early exit.
  \<^item> \<open>testFilter_proxy\<close> is \<^verbatim>\<open>_testFilter\<close>; its loop is \<open>testFilter_proxy_loop\<close>, with
    the variable \<^verbatim>\<open>res\<close>.
  \<^item> \<open>traverse_loop\<close> is the inner loop \<^verbatim>\<open>p.push(testFilter(val, params[ii]))\<close>;
    \<^verbatim>\<open>testFilter\<close> on \<^verbatim>\<open>undefined\<close> throws at \<^verbatim>\<open>stack.length\<close>.
\<close>

function (sequential) testFilter :: "env \<Rightarrow> jsval \<Rightarrow> qry list \<Rightarrow> error + bool"
  and testFilter_loop :: "env \<Rightarrow> jsval \<Rightarrow> qry list \<Rightarrow> bool \<Rightarrow> error + bool"
  and testFilter_proxy :: "env \<Rightarrow> jsval \<Rightarrow> test_def list \<Rightarrow> error + bool"
  and testFilter_proxy_loop :: "env \<Rightarrow> jsval \<Rightarrow> test_def list \<Rightarrow> bool \<Rightarrow> error + bool"
  and traverse_loop :: "env \<Rightarrow> jsval \<Rightarrow> qry list option list \<Rightarrow> error + bool list"
where
  "testFilter E val stack = testFilter_loop E val stack True"
| "testFilter_loop E val [] pass = Inr pass"
| "testFilter_loop E val (Qry test path # rest) pass =
     (case testFilter_proxy E
             (case path of
                None \<Rightarrow> val
              | Some p \<Rightarrow> if p \<noteq> [] then properties_get E val p else val)
             test of
        Inl e \<Rightarrow> Inl e
      | Inr res \<Rightarrow> testFilter_loop E val rest (if \<not> res then False else pass))"
| "testFilter_proxy E val stack = testFilter_proxy_loop E val stack True"
| "testFilter_proxy_loop E val [] res = Inr res"
| "testFilter_proxy_loop E val (Test fn (Raw params) # rest) res =
     (case callFn E fn val (Inl params) of
        Inl e \<Rightarrow> Inl e
      | Inr r \<Rightarrow> testFilter_proxy_loop E val rest (if \<not> r then False else res))"
| "testFilter_proxy_loop E val (Test fn (Nested params) # rest) res =
     (case traverse_loop E val params of
        Inl e \<Rightarrow> Inl e
      | Inr p \<Rightarrow>
          (case callFn E fn val (Inr p) of
             Inl e \<Rightarrow> Inl e
           | Inr r \<Rightarrow> testFilter_proxy_loop E val rest (if \<not> r then False else res)))"
| "traverse_loop E val [] = Inr []"
| "traverse_loop E val (None # rest) = Inl TypeError"
| "traverse_loop E val (Some stack # rest) =
     (case testFilter E val stack of
        Inl e \<Rightarrow> Inl e
      | Inr b \<Rightarrow>
          (case traverse_loop E val rest of
             Inl e \<Rightarrow> Inl e
           | Inr bs \<Rightarrow> Inr (b # bs)))"
  by pat_completeness auto
termination
  by (relation "measures
    [case_sum
       (case_sum (\<lambda>(E, val, stack). size_list size stack)
          (\<lambda>(E, val, stack, pass). size_list size stack))
       (case_sum (\<lambda>(E, val, stack). size_list size stack)
          (case_sum (\<lambda>(E, val, stack, res). size_list size stack)
             (\<lambda>(E, val, params). size_list (size_option (size_list size)) params))),
     case_sum
       (case_sum (\<lambda>x. 1) (\<lambda>x. 0))
       (case_sum (\<lambda>x. 1) (\<lambda>x. 0))]") simp_all

section \<open>The filter object\<close>

text \<open>
  \<^verbatim>\<open>function Filter (query) { ... this.query = query; this.stack = parseQuery(query); }\<close>
\<close>

record filter_obj =
  query_of :: jsval
  stack_of :: "qry list"

definition Filter :: "env \<Rightarrow> jsval \<Rightarrow> error + filter_obj" where
  "Filter E query =
     (case parseQuery E query of
        Inl e \<Rightarrow> Inl e
      | Inr s \<Rightarrow> Inr \<lparr>query_of = query, stack_of = s\<rparr>)"

text \<open>\<^verbatim>\<open>Filter.prototype.test\<close>\<close>

definition Filter_test :: "env \<Rightarrow> filter_obj \<Rightarrow> jsval \<Rightarrow> error + bool" where
  "Filter_test E f data = testFilter E data (stack_of f)"

text \<open>
  \<^verbatim>\<open>Filter.prototype.subset\<close>, \<^verbatim>\<open>pass\<close> and \<^verbatim>\<open>index\<close> run
  \<^verbatim>\<open>for (var di = 0; di < data.length; di++) { datum = data[di]; ... }\<close> with the result
  array \<^verbatim>\<open>res\<close>: the loops below take the elements still to visit, \<^verbatim>\<open>res\<close>, and for
  \<^verbatim>\<open>index\<close> the counter \<^verbatim>\<open>di\<close>. The result is the list of the elements of the new array.
\<close>

fun subset_loop :: "env \<Rightarrow> filter_obj \<Rightarrow> jsval list \<Rightarrow> jsval list \<Rightarrow> error + jsval list" where
  "subset_loop E f [] res = Inr res"
| "subset_loop E f (datum # rest) res =
     (case testFilter E datum (stack_of f) of
        Inl e \<Rightarrow> Inl e
      | Inr b \<Rightarrow> subset_loop E f rest (if b then res @ [datum] else res))"

definition Filter_subset :: "env \<Rightarrow> filter_obj \<Rightarrow> jsval \<Rightarrow> error + jsval list" where
  "Filter_subset E f data =
     (case elems E data of Inl e \<Rightarrow> Inl e | Inr ds \<Rightarrow> subset_loop E f ds [])"

fun pass_loop :: "env \<Rightarrow> filter_obj \<Rightarrow> jsval list \<Rightarrow> bool list \<Rightarrow> error + bool list" where
  "pass_loop E f [] res = Inr res"
| "pass_loop E f (datum # rest) res =
     (case testFilter E datum (stack_of f) of
        Inl e \<Rightarrow> Inl e
      | Inr b \<Rightarrow> pass_loop E f rest (res @ [b]))"

definition Filter_pass :: "env \<Rightarrow> filter_obj \<Rightarrow> jsval \<Rightarrow> error + bool list" where
  "Filter_pass E f data =
     (case elems E data of Inl e \<Rightarrow> Inl e | Inr ds \<Rightarrow> pass_loop E f ds [])"

fun index_loop ::
    "env \<Rightarrow> filter_obj \<Rightarrow> jsval list \<Rightarrow> nat \<Rightarrow> nat list \<Rightarrow> error + nat list" where
  "index_loop E f [] di res = Inr res"
| "index_loop E f (datum # rest) di res =
     (case testFilter E datum (stack_of f) of
        Inl e \<Rightarrow> Inl e
      | Inr b \<Rightarrow> index_loop E f rest (Suc di) (if b then res @ [di] else res))"

definition Filter_index :: "env \<Rightarrow> filter_obj \<Rightarrow> jsval \<Rightarrow> error + nat list" where
  "Filter_index E f data =
     (case elems E data of Inl e \<Rightarrow> Inl e | Inr ds \<Rightarrow> index_loop E f ds 0 [])"

section \<open>A deep path lookup\<close>

text \<open>
  Modelled from the spec: \<^verbatim>\<open>properties.get\<close> belongs to the package tea-properties, which
  is not part of the repository. The specification describes it: it "resolves
  dot-separated and bracket-indexed path segments against nested objects/arrays; returns an
  absent-value sentinel (not an error) when any intermediate segment is missing or the
  terminal value does not exist". \<open>deepGet\<close> follows these words. The theorems below hold
  for every lookup function; \<open>deepGet\<close> only serves to run the engine on examples.
\<close>

datatype segment = Prop string | Index nat

definition digit_value :: "char \<Rightarrow> nat" where
  "digit_value c = of_char c - 48"

fun parse_path :: "string \<Rightarrow> string \<Rightarrow> segment list"
  and parse_index :: "string \<Rightarrow> nat \<Rightarrow> segment list"
where
  "parse_path [] acc = (if acc = [] then [] else [Prop acc])"
| "parse_path (c # cs) acc =
     (if c = CHR ''.'' then (if acc = [] then [] else [Prop acc]) @ parse_path cs []
      else if c = CHR ''['' then (if acc = [] then [] else [Prop acc]) @ parse_index cs 0
      else parse_path cs (acc @ [c]))"
| "parse_index [] n = [Index n]"
| "parse_index (c # cs) n =
     (if c = CHR '']'' then Index n # parse_path cs []
      else parse_index cs (10 * n + digit_value c))"

fun walk :: "jsval \<Rightarrow> segment list \<Rightarrow> jsval" where
  "walk v [] = v"
| "walk (Obj r kvs) (Prop k # rest) = walk (lookup kvs k) rest"
| "walk (Arr r xs) (Index i # rest) = (if i < length xs then walk (xs ! i) rest else Undefined)"
| "walk v (seg # rest) = Undefined"

definition deepGet :: "jsval \<Rightarrow> string \<Rightarrow> jsval" where
  "deepGet v p = walk v (parse_path p [])"

section \<open>An example from the documentation\<close>

text \<open>
  The filter of \<^verbatim>\<open>{ $or: [ { 'hello': true }, { 'universe': true } ] }\<close> and the four records
  of the examples of \<^verbatim>\<open>subset\<close>, \<^verbatim>\<open>pass\<close> and \<^verbatim>\<open>index\<close>.
\<close>

definition or_filter :: filter_obj where
  "or_filter =
     \<lparr>query_of = Obj 0 [(''$or'', Arr 1 [Obj 2 [(''hello'', Bool True)],
                                         Obj 3 [(''universe'', Bool True)]])],
      stack_of =
        [Qry [Test (Some C_or)
                (Nested [Some [Qry [Test (Some C_eq) (Raw (Bool True))] (Some ''hello'')],
                         Some [Qry [Test (Some C_eq) (Raw (Bool True))] (Some ''universe'')]])]
           None]\<rparr>"

definition or_records :: "jsval list" where
  "or_records =
     [Obj 4 [(''hello'', Bool True)],
      Obj 5 [(''universe'', Bool False)],
      Obj 6 [(''hello'', Bool False), (''universe'', Bool True)],
      Obj 7 [(''hello'', Bool False), (''universe'', Bool False)]]"

section \<open>Properties of the comparators\<close>

lemma and_loop_all: "and_loop xs res = (res \<and> list_all truthy xs)"
  by (induction xs arbitrary: res) auto

lemma or_loop_ex: "or_loop xs res = (res \<or> list_ex truthy xs)"
  by (induction xs arbitrary: res) auto

lemma nor_loop_ex: "nor_loop xs res = (res \<and> \<not> list_ex truthy xs)"
  by (induction xs arbitrary: res) auto

lemma unknown_not_TRAVERSABLE: "comparators op = None \<Longrightarrow> \<not> TRAVERSABLE op"
  by (auto simp: TRAVERSABLE_def comparators_def)


lemma js_less_numbers: "js_less E (Num a) (Num b) = Some (a < b)"
  by (simp add: js_less_def ToNumber_def)




section \<open>Properties of the parser\<close>

text \<open>The flag \<^verbatim>\<open>traverse\<close> after the inner loop: it stays true only when no element
  is a literal.\<close>

lemma parseFilter_args_traverse:
  "parseFilter_args E ps traverse nq st = Inr (traverse', nq', st') \<Longrightarrow>
   traverse' = (traverse \<and> \<not> list_ex is_literal ps)"
proof (induction ps arbitrary: traverse nq st)
  case Nil
  then show ?case by simp
next
  case (Cons p ps)
  show ?case
  proof (cases "is_literal p")
    case True
    with Cons.prems have "parseFilter_args E ps False nq (st @ [nq]) = Inr (traverse', nq', st')"
      by simp
    from Cons.IH [OF this] True show ?thesis by simp
  next
    case False
    with Cons.prems obtain q where q: "parseQuery E p = Inr q"
      and "parseFilter_args E ps traverse (Some q) (st @ [Some q]) = Inr (traverse', nq', st')"
      by (auto split: sum.splits)
    from Cons.IH [OF this(2)] False show ?thesis by simp
  qed
qed

lemma parseFilter_loop_length:
  "parseFilter_loop E es nq = Inr stack \<Longrightarrow> length stack = length es"
proof (induction es arbitrary: nq stack)
  case Nil
  then show ?case by simp
next
  case (Cons e es)
  obtain test params where e: "e = (test, params)" by (cases e)
  show ?case using Cons.prems Cons.IH unfolding e
    by (auto split: if_splits sum.splits prod.splits)
qed

lemma parseFilter_loop_literal_arg:
  assumes "TRAVERSABLE op" and "list_ex is_literal xs"
    and "parseFilter_loop E (pre @ (op, Arr r xs) # post) nq = Inr stack"
  shows "stack ! length pre = Test (comparators op) (Raw (Arr r xs))"
  using assms(3)
proof (induction pre arbitrary: nq stack)
  case Nil
  then obtain traverse nq' st where
    args: "parseFilter_args E xs True nq [] = Inr (traverse, nq', st)"
    using assms(1) by (auto split: sum.splits)
  from parseFilter_args_traverse [OF args] assms(2) have "\<not> traverse" by simp
  with Nil args assms(1) show ?case by (auto split: sum.splits)
next
  case (Cons e pre)
  obtain test params where e: "e = (test, params)" by (cases e)
  from Cons.prems obtain t stack' nq' where
    "stack = t # stack'" and "parseFilter_loop E (pre @ (op, Arr r xs) # post) nq' = Inr stack'"
    unfolding e by (auto split: if_splits sum.splits prod.splits)
  with Cons.IH [of nq' stack'] show ?case by simp
qed

lemma logical_raw_call:
  assumes "TRAVERSABLE op"
  shows "\<exists>c. comparators op = Some c \<and> fn_length c = 1 \<and>
     testFilter_proxy E val [Test (comparators op) (Raw (Arr r xs))] =
       apply_fn E c (Arr r xs) Undefined"
  using assms
  by (auto simp: TRAVERSABLE_def comparators_def callFn_def c_and_def c_or_def c_nor_def)

lemma parseQuery_loop_operator_paths:
  "list_all (\<lambda>e. is_operator (fst e)) es \<Longrightarrow> parseQuery_loop E q es = Inr s \<Longrightarrow>
   map path_of s = replicate (length es) None"
proof (induction es arbitrary: s)
  case Nil
  then show ?case by simp
next
  case (Cons e es)
  obtain cmd params where e: "e = (cmd, params)" by (cases e)
  from Cons.prems e obtain t s' where
    "parseQuery_loop E q es = Inr s'" and "s = Qry t None # s'"
    by (auto split: sum.splits)
  with Cons.IH [of s'] Cons.prems(1) show ?case by simp
qed

section \<open>Properties of the result loops\<close>

lemma upt_0_Suc_shift: "[0..<Suc n] = 0 # map Suc [0..<n]"
  by (simp add: upt_conv_Cons map_Suc_upt del: upt_Suc)

lemma pass_loop_acc:
  "pass_loop E f ds res =
     (case pass_loop E f ds [] of Inl e \<Rightarrow> Inl e | Inr bs \<Rightarrow> Inr (res @ bs))"
proof (induction ds arbitrary: res)
  case Nil
  show ?case by simp
next
  case (Cons d ds)
  show ?case
  proof (cases "testFilter E d (stack_of f)")
    case (Inl e)
    then show ?thesis by simp
  next
    case (Inr b)
    then show ?thesis
      using Cons.IH [of "res @ [b]"] Cons.IH [of "[b]"] by (simp split: sum.splits)
  qed
qed

lemma pass_loop_returns:
  "pass_loop E f ds [] = Inr bs \<longleftrightarrow> map (\<lambda>d. testFilter E d (stack_of f)) ds = map Inr bs"
proof (induction ds arbitrary: bs)
  case Nil
  show ?case by auto
next
  case (Cons d ds)
  show ?case
  proof (cases "testFilter E d (stack_of f)")
    case (Inl e)
    then show ?thesis by (cases bs) simp_all
  next
    case (Inr b)
    have "pass_loop E f (d # ds) [] =
        (case pass_loop E f ds [] of Inl e \<Rightarrow> Inl e | Inr bs' \<Rightarrow> Inr (b # bs'))"
      using Inr pass_loop_acc [of E f ds "[b]"] by (simp split: sum.splits)
    then show ?thesis
      using Inr Cons.IH by (cases bs) (auto split: sum.splits)
  qed
qed

lemma pass_loop_throws:
  "pass_loop E f ds [] = Inl e \<longleftrightarrow>
     (\<exists>n bs. n < length ds
        \<and> map (\<lambda>d. testFilter E d (stack_of f)) (take n ds) = map Inr bs
        \<and> testFilter E (ds ! n) (stack_of f) = Inl e)"
proof (induction ds)
  case Nil
  show ?case by simp
next
  case (Cons d ds)
  let ?t = "\<lambda>d. testFilter E d (stack_of f)"
  show ?case
  proof (cases "testFilter E d (stack_of f)")
    case (Inl e')
    have "(\<exists>n bs. n < length (d # ds) \<and> map ?t (take n (d # ds)) = map Inr bs
        \<and> ?t ((d # ds) ! n) = Inl e) \<longleftrightarrow> e' = e"
    proof
      assume "\<exists>n bs. n < length (d # ds) \<and> map ?t (take n (d # ds)) = map Inr bs
        \<and> ?t ((d # ds) ! n) = Inl e"
      then obtain n bs where n: "map ?t (take n (d # ds)) = map Inr bs"
        "?t ((d # ds) ! n) = Inl e" by blast
      show "e' = e"
      proof (cases n)
        case 0
        with n(2) Inl show ?thesis by simp
      next
        case (Suc m)
        with n(1) Inl show ?thesis by (cases bs) simp_all
      qed
    next
      assume "e' = e"
      with Inl have "0 < length (d # ds) \<and> map ?t (take 0 (d # ds)) = map Inr []
        \<and> ?t ((d # ds) ! 0) = Inl e" by simp
      then show "\<exists>n bs. n < length (d # ds) \<and> map ?t (take n (d # ds)) = map Inr bs
        \<and> ?t ((d # ds) ! n) = Inl e" by blast
    qed
    with Inl show ?thesis by auto
  next
    case (Inr b)
    have step: "pass_loop E f (d # ds) [] = Inl e \<longleftrightarrow> pass_loop E f ds [] = Inl e"
      using Inr pass_loop_acc [of E f ds "[b]"] by (simp split: sum.splits)
    have "(\<exists>n bs. n < length (d # ds) \<and> map ?t (take n (d # ds)) = map Inr bs
        \<and> ?t ((d # ds) ! n) = Inl e) \<longleftrightarrow>
      (\<exists>m bs. m < length ds \<and> map ?t (take m ds) = map Inr bs \<and> ?t (ds ! m) = Inl e)"
    proof
      assume "\<exists>n bs. n < length (d # ds) \<and> map ?t (take n (d # ds)) = map Inr bs
        \<and> ?t ((d # ds) ! n) = Inl e"
      then obtain n bs where n: "n < length (d # ds)"
        "map ?t (take n (d # ds)) = map Inr bs" "?t ((d # ds) ! n) = Inl e" by blast
      from n(3) Inr obtain m where m: "n = Suc m" by (cases n) auto
      with n(2) obtain bs' where "map ?t (take m ds) = map Inr bs'"
        by (cases bs) auto
      with n(1,3) m show "\<exists>m bs. m < length ds \<and> map ?t (take m ds) = map Inr bs
        \<and> ?t (ds ! m) = Inl e" by auto
    next
      assume "\<exists>m bs. m < length ds \<and> map ?t (take m ds) = map Inr bs \<and> ?t (ds ! m) = Inl e"
      then obtain m bs where m: "m < length ds" "map ?t (take m ds) = map Inr bs"
        "?t (ds ! m) = Inl e" by blast
      with Inr have "Suc m < length (d # ds)
        \<and> map ?t (take (Suc m) (d # ds)) = map Inr (b # bs)
        \<and> ?t ((d # ds) ! Suc m) = Inl e" by simp
      then show "\<exists>n bs. n < length (d # ds) \<and> map ?t (take n (d # ds)) = map Inr bs
        \<and> ?t ((d # ds) ! n) = Inl e" by blast
    qed
    with step Cons.IH show ?thesis by simp
  qed
qed

lemma index_loop_pass:
  "index_loop E f ds di res =
     (case pass_loop E f ds [] of
        Inl e \<Rightarrow> Inl e
      | Inr bs \<Rightarrow> Inr (res @ map (\<lambda>i. di + i) (filter (\<lambda>i. bs ! i) [0..<length ds])))"
proof (induction ds arbitrary: di res)
  case Nil
  show ?case by simp
next
  case (Cons d ds)
  show ?case
  proof (cases "testFilter E d (stack_of f)")
    case (Inl e)
    then show ?thesis by simp
  next
    case (Inr b)
    have p: "pass_loop E f (d # ds) [] =
        (case pass_loop E f ds [] of Inl e \<Rightarrow> Inl e | Inr bs' \<Rightarrow> Inr (b # bs'))"
      using Inr pass_loop_acc [of E f ds "[b]"] by (simp split: sum.splits)
    have i: "index_loop E f (d # ds) di res =
        index_loop E f ds (Suc di) (if b then res @ [di] else res)"
      using Inr by simp
    show ?thesis
      unfolding p i Cons.IH length_Cons upt_0_Suc_shift
      by (auto simp: filter_map o_def split: sum.splits)
  qed
qed

lemma subset_loop_pass:
  "subset_loop E f ds res =
     (case pass_loop E f ds [] of
        Inl e \<Rightarrow> Inl e
      | Inr bs \<Rightarrow> Inr (res @ map (\<lambda>i. ds ! i) (filter (\<lambda>i. bs ! i) [0..<length ds])))"
proof (induction ds arbitrary: res)
  case Nil
  show ?case by simp
next
  case (Cons d ds)
  show ?case
  proof (cases "testFilter E d (stack_of f)")
    case (Inl e)
    then show ?thesis by simp
  next
    case (Inr b)
    have p: "pass_loop E f (d # ds) [] =
        (case pass_loop E f ds [] of Inl e \<Rightarrow> Inl e | Inr bs' \<Rightarrow> Inr (b # bs'))"
      using Inr pass_loop_acc [of E f ds "[b]"] by (simp split: sum.splits)
    have s: "subset_loop E f (d # ds) res =
        subset_loop E f ds (if b then res @ [d] else res)"
      using Inr by simp
    show ?thesis
      unfolding p s Cons.IH length_Cons upt_0_Suc_shift
      by (auto simp: filter_map o_def split: sum.splits)
  qed
qed

lemma pass_loop_empty:
  "stack_of f = [] \<Longrightarrow> pass_loop E f ds res = Inr (res @ replicate (length ds) True)"
  by (induction ds arbitrary: res) (simp_all add: replicate_append_same)

lemma index_loop_empty:
  "stack_of f = [] \<Longrightarrow> index_loop E f ds di res = Inr (res @ [di..<di + length ds])"
proof (induction ds arbitrary: res di)
  case Nil
  then show ?case by simp
next
  case (Cons d ds)
  have "[di..<di + length (d # ds)] = di # [Suc di..<Suc di + length ds]"
    by (simp add: upt_conv_Cons del: upt_Suc)
  with Cons show ?case by simp
qed

lemma subset_loop_empty: "stack_of f = [] \<Longrightarrow> subset_loop E f ds res = Inr (res @ ds)"
  by (induction ds arbitrary: res) simp_all

section \<open>The claims\<close>

text \<open>
  C1 (as the specification states it): an expression that references an operator token
  absent from the comparator table, such as \<^verbatim>\<open>{field: {$bogus: 1}}\<close>, makes compilation
  fail with an UnknownComparator error. The code does not: \<^verbatim>\<open>parseFilter\<close> stores
  \<^verbatim>\<open>Filter.comparators[test]\<close>, which is \<^verbatim>\<open>undefined\<close>, and the constructor returns a
  filter.
\<close>

theorem unknown_operator_compiles:
  "\<forall>E. Filter E (Obj 0 [(''field'', Obj 1 [(''$bogus'', Num 1)])]) =
     Inr \<lparr>query_of = Obj 0 [(''field'', Obj 1 [(''$bogus'', Num 1)])],
          stack_of = [Qry [Test None (Raw (Num 1))] (Some ''field'')]\<rparr>"
  by (simp add: Filter_def comparators_def TRAVERSABLE_def)

text \<open>
  C1 (amended): an operator token absent from the comparator table does not stop the
  compilation. \<^verbatim>\<open>{field: {$op: arg}}\<close> and \<^verbatim>\<open>{$op: arg}\<close> compile to a stack whose test has
  no comparator, and the error comes when the filter is used: \<^verbatim>\<open>test\<close> throws a TypeError
  on every data value.
\<close>

theorem unknown_operator_fails_at_test:
  assumes "is_operator op" and "comparators op = None" and "\<not> is_operator field"
  shows "Filter E (Obj r [(field, Obj r' [(op, arg)])]) =
      Inr \<lparr>query_of = Obj r [(field, Obj r' [(op, arg)])],
           stack_of = [Qry [Test None (Raw arg)] (Some field)]\<rparr>
    \<and> Filter_test E \<lparr>query_of = Obj r [(field, Obj r' [(op, arg)])],
           stack_of = [Qry [Test None (Raw arg)] (Some field)]\<rparr> data = Inl TypeError
    \<and> Filter E (Obj r [(op, arg)]) =
      Inr \<lparr>query_of = Obj r [(op, arg)], stack_of = [Qry [Test None (Raw arg)] None]\<rparr>
    \<and> Filter_test E \<lparr>query_of = Obj r [(op, arg)],
           stack_of = [Qry [Test None (Raw arg)] None]\<rparr> data = Inl TypeError"
  using assms unknown_not_TRAVERSABLE [OF assms(2)]
  by (simp add: Filter_def Filter_test_def callFn_def)

theorem unknown_operator_fails_at_test_witness:
  "\<forall>E. is_operator ''$bogus'' \<and> comparators ''$bogus'' = None \<and> \<not> is_operator ''field''
     \<and> Filter_test E \<lparr>query_of = Obj 0 [(''field'', Obj 1 [(''$bogus'', Num 1)])],
           stack_of = [Qry [Test None (Raw (Num 1))] (Some ''field'')]\<rparr>
         (Obj 2 [(''field'', Num 1)]) = Inl TypeError"
proof
  fix E :: env
  have h1: "is_operator ''$bogus''" by simp
  have h2: "comparators ''$bogus'' = None" by (simp add: comparators_def)
  have h3: "\<not> is_operator ''field''" by simp
  show "is_operator ''$bogus'' \<and> comparators ''$bogus'' = None \<and> \<not> is_operator ''field''
     \<and> Filter_test E \<lparr>query_of = Obj 0 [(''field'', Obj 1 [(''$bogus'', Num 1)])],
           stack_of = [Qry [Test None (Raw (Num 1))] (Some ''field'')]\<rparr>
         (Obj 2 [(''field'', Num 1)]) = Inl TypeError"
    using unknown_operator_fails_at_test [OF h1 h2 h3,
        where E = E and r = 0 and r' = 1 and arg = "Num 1" and data = "Obj 2 [(''field'', Num 1)]"]
      h1 h2 h3
    by simp
qed

text \<open>
  C2 (the specification's claim; the code breaks it): evaluation never throws, and every
  comparator yields false on a subject it cannot interpret. The comment of \<^verbatim>\<open>testFilter\<close>
  promises the same ("if that comparator cannot interpret the value, false will be return"),
  and \<^verbatim>\<open>$size\<close> guards its subject with \<^verbatim>\<open>a &&\<close>. \<^verbatim>\<open>$all\<close> has no such guard: on a
  record without the addressed field it calls \<^verbatim>\<open>indexOf\<close> of \<^verbatim>\<open>undefined\<close>. The filter
  \<^verbatim>\<open>{tags: {$all: [1]}}\<close> throws a TypeError on the record \<^verbatim>\<open>{name: 'x'}\<close>; \<^verbatim>\<open>$in\<close> and
  \<^verbatim>\<open>$mod\<close> throw on an argument that is no array.
\<close>

theorem all_on_absent_subject_throws:
  "Filter E (Obj 0 [(''tags'', Obj 1 [(''$all'', Arr 2 [Num 1])])]) =
     Inr \<lparr>query_of = Obj 0 [(''tags'', Obj 1 [(''$all'', Arr 2 [Num 1])])],
          stack_of = [Qry [Test (Some C_all) (Raw (Arr 2 [Num 1]))] (Some ''tags'')]\<rparr>
   \<and> deepGet (Obj 3 [(''name'', Str ''x'')]) ''tags'' = Undefined
   \<and> Filter_test (E\<lparr>properties_get := deepGet\<rparr>)
        \<lparr>query_of = Obj 0 [(''tags'', Obj 1 [(''$all'', Arr 2 [Num 1])])],
         stack_of = [Qry [Test (Some C_all) (Raw (Arr 2 [Num 1]))] (Some ''tags'')]\<rparr>
        (Obj 3 [(''name'', Str ''x'')]) = Inl TypeError
   \<and> apply_fn E C_all Undefined (Arr 2 [Num 1]) = Inl TypeError
   \<and> apply_fn E C_in (Num 1) (Num 5) = Inl TypeError
   \<and> apply_fn E C_mod (Num 1) Undefined = Inl TypeError"
  by (simp add: Filter_def Filter_test_def comparators_def TRAVERSABLE_def callFn_def
      c_all_def c_in_def c_mod_def deepGet_def)

text \<open>
  C3: a test of \<^verbatim>\<open>$and\<close>, \<^verbatim>\<open>$or\<close> or \<^verbatim>\<open>$nor\<close> whose argument array holds at least one
  literal is compiled with \<^verbatim>\<open>traverse\<close> false and the raw array as \<^verbatim>\<open>params\<close>, wherever
  it stands among the tests of its object; no stack of the objects beside the literal is
  kept. \<^verbatim>\<open>_testFilter\<close> then calls the comparator on the raw array.
\<close>

theorem literal_argument_disables_traversal:
  assumes "TRAVERSABLE op" and "list_ex is_literal xs"
    and "parseFilter E (pre @ (op, Arr r xs) # post) = Inr stack"
  shows "length stack = length pre + 1 + length post
    \<and> stack ! length pre = Test (comparators op) (Raw (Arr r xs))
    \<and> \<not> traverse_of (stack ! length pre)
    \<and> params_of (stack ! length pre) = Raw (Arr r xs)
    \<and> (\<exists>c. fn_of (stack ! length pre) = Some c \<and> fn_length c = 1 \<and>
          testFilter_proxy E val [stack ! length pre] = apply_fn E c (Arr r xs) Undefined)"
proof -
  from assms(3) have loop: "parseFilter_loop E (pre @ (op, Arr r xs) # post) None = Inr stack"
    by simp
  have node: "stack ! length pre = Test (comparators op) (Raw (Arr r xs))"
    by (rule parseFilter_loop_literal_arg [OF assms(1,2) loop])
  have "length stack = length pre + 1 + length post"
    using parseFilter_loop_length [OF loop] by simp
  moreover from logical_raw_call [OF assms(1), of E val r xs] node
  have "\<exists>c. fn_of (stack ! length pre) = Some c \<and> fn_length c = 1 \<and>
          testFilter_proxy E val [stack ! length pre] = apply_fn E c (Arr r xs) Undefined"
    by auto
  ultimately show ?thesis using node by simp
qed

theorem literal_argument_disables_traversal_witness:
  "\<forall>E val. TRAVERSABLE ''$and''
     \<and> list_ex is_literal [Num 1, Obj 2 [(''a'', Obj 3 [(''$gt'', Num 0)])]]
     \<and> parseFilter E [(''$and'', Arr 1 [Num 1, Obj 2 [(''a'', Obj 3 [(''$gt'', Num 0)])]])] =
         Inr [Test (Some C_and) (Raw (Arr 1 [Num 1, Obj 2 [(''a'', Obj 3 [(''$gt'', Num 0)])]]))]
     \<and> \<not> traverse_of
           (Test (Some C_and) (Raw (Arr 1 [Num 1, Obj 2 [(''a'', Obj 3 [(''$gt'', Num 0)])]])))
     \<and> testFilter_proxy E val
           [Test (Some C_and) (Raw (Arr 1 [Num 1, Obj 2 [(''a'', Obj 3 [(''$gt'', Num 0)])]]))] =
         Inr True"
proof (intro allI)
  fix E :: env and val :: jsval
  let ?xs = "[Num 1, Obj 2 [(''a'', Obj 3 [(''$gt'', Num 0)])]]"
  have h1: "TRAVERSABLE ''$and''" by (simp add: TRAVERSABLE_def)
  have h2: "list_ex is_literal ?xs" by simp
  have h3: "parseFilter E ([] @ (''$and'', Arr 1 ?xs) # []) =
      Inr [Test (Some C_and) (Raw (Arr 1 ?xs))]"
    by (simp add: comparators_def TRAVERSABLE_def)
  have h3': "parseFilter E [(''$and'', Arr 1 ?xs)] = Inr [Test (Some C_and) (Raw (Arr 1 ?xs))]"
    using h3 by simp
  have ev: "testFilter_proxy E val [Test (Some C_and) (Raw (Arr 1 ?xs))] = Inr True"
    by (simp add: callFn_def c_and_def)
  have "\<not> traverse_of
      ([Test (Some C_and) (Raw (Arr 1 ?xs))] ! length ([] :: (string \<times> jsval) list))"
    using literal_argument_disables_traversal [OF h1 h2 h3, of val] by blast
  then have nt: "\<not> traverse_of (Test (Some C_and) (Raw (Arr 1 ?xs)))" by simp
  show "TRAVERSABLE ''$and'' \<and> list_ex is_literal ?xs
     \<and> parseFilter E [(''$and'', Arr 1 ?xs)] = Inr [Test (Some C_and) (Raw (Arr 1 ?xs))]
     \<and> \<not> traverse_of (Test (Some C_and) (Raw (Arr 1 ?xs)))
     \<and> testFilter_proxy E val [Test (Some C_and) (Raw (Arr 1 ?xs))] = Inr True"
    by (intro conjI h1 h2 h3' nt ev)
qed

lemma or_filter_compiled:
  "Filter E (Obj 0 [(''$or'', Arr 1 [Obj 2 [(''hello'', Bool True)],
                                     Obj 3 [(''universe'', Bool True)]])]) = Inr or_filter"
  by (simp add: Filter_def or_filter_def comparators_def TRAVERSABLE_def)

lemma or_filter_tests:
  "map (\<lambda>d. Filter_test (E\<lparr>properties_get := deepGet\<rparr>) or_filter d) or_records =
     [Inr True, Inr False, Inr True, Inr False]"
  by (simp add: Filter_test_def or_filter_def or_records_def callFn_def c_eq_def deepGet_def)

text \<open>
  C4: for every filter and every array \<open>A\<close> of records, \<^verbatim>\<open>pass\<close> returns the list \<open>bs\<close>
  exactly when the tests of the records return the booleans \<open>bs\<close>, in the order of \<open>A\<close>:
  one boolean for each record, \<open>bs ! i\<close> the result of \<^verbatim>\<open>test\<close> on \<open>A ! i\<close>. \<^verbatim>\<open>index\<close>
  returns the indices \<open>i\<close> with \<open>bs ! i\<close>, strictly ascending, and \<^verbatim>\<open>subset\<close> returns the
  records at these indices, in this order. \<^verbatim>\<open>pass\<close> throws exactly when the test of some
  record throws, with the error of the first such record, and then \<^verbatim>\<open>index\<close> and
  \<^verbatim>\<open>subset\<close> throw the same error.
\<close>

theorem pass_index_subset_order:
  "(Filter_pass E f (Arr r A) = Inr bs \<longleftrightarrow> map (Filter_test E f) A = map Inr bs)
   \<and> (Filter_pass E f (Arr r A) = Inl e \<longleftrightarrow>
        (\<exists>n bs'. n < length A \<and> map (Filter_test E f) (take n A) = map Inr bs'
           \<and> Filter_test E f (A ! n) = Inl e))
   \<and> Filter_index E f (Arr r A) =
        (case Filter_pass E f (Arr r A) of
           Inl e \<Rightarrow> Inl e
         | Inr bs \<Rightarrow> Inr (filter (\<lambda>i. bs ! i) [0..<length A]))
   \<and> Filter_subset E f (Arr r A) =
        (case Filter_index E f (Arr r A) of
           Inl e \<Rightarrow> Inl e
         | Inr idx \<Rightarrow> Inr (map (\<lambda>i. A ! i) idx))
   \<and> sorted_wrt (<) (filter (\<lambda>i. bs ! i) [0..<length A])"
proof -
  have t: "Filter_test E f = (\<lambda>d. testFilter E d (stack_of f))"
    by (simp add: Filter_test_def fun_eq_iff)
  have z: "(+) (0::nat) = (\<lambda>i. i)"
    by (simp add: fun_eq_iff)
  have "Filter_pass E f (Arr r A) = Inr bs \<longleftrightarrow> map (Filter_test E f) A = map Inr bs"
    unfolding t using pass_loop_returns [of E f A bs] by (simp add: Filter_pass_def)
  moreover have "Filter_pass E f (Arr r A) = Inl e \<longleftrightarrow>
        (\<exists>n bs'. n < length A \<and> map (Filter_test E f) (take n A) = map Inr bs'
           \<and> Filter_test E f (A ! n) = Inl e)"
    unfolding t using pass_loop_throws [of E f A e] by (simp add: Filter_pass_def)
  moreover have "Filter_index E f (Arr r A) =
        (case Filter_pass E f (Arr r A) of
           Inl e \<Rightarrow> Inl e
         | Inr bs \<Rightarrow> Inr (filter (\<lambda>i. bs ! i) [0..<length A]))"
    using index_loop_pass [of E f A 0 "[]"]
    by (simp add: Filter_index_def Filter_pass_def z split: sum.splits)
  moreover have "Filter_subset E f (Arr r A) =
        (case Filter_index E f (Arr r A) of
           Inl e \<Rightarrow> Inl e
         | Inr idx \<Rightarrow> Inr (map (\<lambda>i. A ! i) idx))"
    using index_loop_pass [of E f A 0 "[]"] subset_loop_pass [of E f A "[]"]
    by (simp add: Filter_index_def Filter_subset_def Filter_pass_def z split: sum.splits)
  moreover have "sorted_wrt (<) (filter (\<lambda>i. bs ! i) [0..<length A])"
    by (simp add: sorted_wrt_filter)
  ultimately show ?thesis by blast
qed

theorem pass_index_subset_order_witness:
  "\<forall>E. Filter_pass (E\<lparr>properties_get := deepGet\<rparr>) or_filter (Arr 8 or_records) =
         Inr [True, False, True, False]
     \<and> Filter_index (E\<lparr>properties_get := deepGet\<rparr>) or_filter (Arr 8 or_records) = Inr [0, 2]
     \<and> Filter_subset (E\<lparr>properties_get := deepGet\<rparr>) or_filter (Arr 8 or_records) =
         Inr [Obj 4 [(''hello'', Bool True)],
              Obj 6 [(''hello'', Bool False), (''universe'', Bool True)]]
     \<and> Filter_pass (E\<lparr>properties_get := deepGet\<rparr>)
         \<lparr>query_of = Obj 0 [(''a'', Obj 1 [(''$all'', Arr 2 [Num 1])])],
          stack_of = [Qry [Test (Some C_all) (Raw (Arr 2 [Num 1]))] (Some ''a'')]\<rparr>
         (Arr 3 [Obj 4 [(''a'', Arr 5 [Num 1])], Obj 6 []]) = Inl TypeError
     \<and> Filter_index (E\<lparr>properties_get := deepGet\<rparr>)
         \<lparr>query_of = Obj 0 [(''a'', Obj 1 [(''$all'', Arr 2 [Num 1])])],
          stack_of = [Qry [Test (Some C_all) (Raw (Arr 2 [Num 1]))] (Some ''a'')]\<rparr>
         (Arr 3 [Obj 4 [(''a'', Arr 5 [Num 1])], Obj 6 []]) = Inl TypeError
     \<and> Filter_subset (E\<lparr>properties_get := deepGet\<rparr>)
         \<lparr>query_of = Obj 0 [(''a'', Obj 1 [(''$all'', Arr 2 [Num 1])])],
          stack_of = [Qry [Test (Some C_all) (Raw (Arr 2 [Num 1]))] (Some ''a'')]\<rparr>
         (Arr 3 [Obj 4 [(''a'', Arr 5 [Num 1])], Obj 6 []]) = Inl TypeError"
proof
  fix E :: env
  let ?E = "E\<lparr>properties_get := deepGet\<rparr>"
  let ?bs = "[True, False, True, False]"
  let ?g = "\<lparr>query_of = Obj 0 [(''a'', Obj 1 [(''$all'', Arr 2 [Num 1])])],
          stack_of = [Qry [Test (Some C_all) (Raw (Arr 2 [Num 1]))] (Some ''a'')]\<rparr>"
  let ?B = "[Obj 4 [(''a'', Arr 5 [Num 1])], Obj 6 []]"
  note th1 = pass_index_subset_order [of ?E or_filter 8 or_records ?bs TypeError]
  have tests: "map (Filter_test ?E or_filter) or_records = map Inr ?bs"
    using or_filter_tests [of E] by simp
  with th1 have p1: "Filter_pass ?E or_filter (Arr 8 or_records) = Inr ?bs" by blast
  have idx: "filter (\<lambda>i. ?bs ! i) [0..<length or_records] = [0, 2]"
    by (simp add: or_records_def upt_rec)
  from th1 p1 idx have i1: "Filter_index ?E or_filter (Arr 8 or_records) = Inr [0, 2]"
    by simp
  from th1 i1 have s1: "Filter_subset ?E or_filter (Arr 8 or_records) =
      Inr [Obj 4 [(''hello'', Bool True)],
           Obj 6 [(''hello'', Bool False), (''universe'', Bool True)]]"
    by (simp add: or_records_def)
  note th2 = pass_index_subset_order [of ?E ?g 3 ?B "[]" TypeError]
  have ok: "Filter_test ?E ?g (Obj 4 [(''a'', Arr 5 [Num 1])]) = Inr True"
    by (simp add: Filter_test_def callFn_def c_all_def deepGet_def)
  have bad: "Filter_test ?E ?g (Obj 6 []) = Inl TypeError"
    by (simp add: Filter_test_def callFn_def c_all_def deepGet_def)
  have "1 < length ?B \<and> map (Filter_test ?E ?g) (take 1 ?B) = map Inr [True]
      \<and> Filter_test ?E ?g (?B ! 1) = Inl TypeError"
    using ok bad by simp
  then have "\<exists>n bs'. n < length ?B \<and> map (Filter_test ?E ?g) (take n ?B) = map Inr bs'
      \<and> Filter_test ?E ?g (?B ! n) = Inl TypeError"
    by blast
  with th2 have p2: "Filter_pass ?E ?g (Arr 3 ?B) = Inl TypeError" by blast
  from th2 p2 have i2: "Filter_index ?E ?g (Arr 3 ?B) = Inl TypeError" by simp
  from th2 i2 have s2: "Filter_subset ?E ?g (Arr 3 ?B) = Inl TypeError" by simp
  show "Filter_pass ?E or_filter (Arr 8 or_records) = Inr ?bs
     \<and> Filter_index ?E or_filter (Arr 8 or_records) = Inr [0, 2]
     \<and> Filter_subset ?E or_filter (Arr 8 or_records) =
         Inr [Obj 4 [(''hello'', Bool True)],
              Obj 6 [(''hello'', Bool False), (''universe'', Bool True)]]
     \<and> Filter_pass ?E ?g (Arr 3 ?B) = Inl TypeError
     \<and> Filter_index ?E ?g (Arr 3 ?B) = Inl TypeError
     \<and> Filter_subset ?E ?g (Arr 3 ?B) = Inl TypeError"
    by (intro conjI p1 i1 s1 p2 i2 s2)
qed

text \<open>
  C5: for a literal \<open>v\<close> and a field path \<open>k\<close>, \<^verbatim>\<open>{k: v}\<close> and \<^verbatim>\<open>{k: {$eq: v}}\<close> compile to
  the same stack, the single \<^verbatim>\<open>$eq\<close> test on the path \<open>k\<close>, and therefore test every
  record alike.
\<close>

theorem bare_literal_is_eq:
  assumes "is_literal v" and "\<not> is_operator k"
  shows "Filter E (Obj r [(k, v)]) =
      Inr \<lparr>query_of = Obj r [(k, v)], stack_of = [Qry [Test (Some C_eq) (Raw v)] (Some k)]\<rparr>
    \<and> Filter E (Obj r' [(k, Obj r'' [(''$eq'', v)])]) =
      Inr \<lparr>query_of = Obj r' [(k, Obj r'' [(''$eq'', v)])],
           stack_of = [Qry [Test (Some C_eq) (Raw v)] (Some k)]\<rparr>
    \<and> Filter_test E \<lparr>query_of = Obj r [(k, v)],
           stack_of = [Qry [Test (Some C_eq) (Raw v)] (Some k)]\<rparr> data =
      Filter_test E \<lparr>query_of = Obj r' [(k, Obj r'' [(''$eq'', v)])],
           stack_of = [Qry [Test (Some C_eq) (Raw v)] (Some k)]\<rparr> data"
  using assms
  by (simp add: Filter_def Filter_test_def comparators_def TRAVERSABLE_def)

theorem bare_literal_is_eq_witness:
  "\<forall>E. is_literal (Str ''universe'') \<and> \<not> is_operator ''hello''
     \<and> Filter E (Obj 0 [(''hello'', Str ''universe'')]) =
         Inr \<lparr>query_of = Obj 0 [(''hello'', Str ''universe'')],
              stack_of = [Qry [Test (Some C_eq) (Raw (Str ''universe''))] (Some ''hello'')]\<rparr>
     \<and> Filter E (Obj 1 [(''hello'', Obj 2 [(''$eq'', Str ''universe'')])]) =
         Inr \<lparr>query_of = Obj 1 [(''hello'', Obj 2 [(''$eq'', Str ''universe'')])],
              stack_of = [Qry [Test (Some C_eq) (Raw (Str ''universe''))] (Some ''hello'')]\<rparr>"
proof
  fix E :: env
  have h1: "is_literal (Str ''universe'')" by simp
  have h2: "\<not> is_operator ''hello''" by simp
  from bare_literal_is_eq [OF h1 h2, of E 0 1 2] h1 h2
  show "is_literal (Str ''universe'') \<and> \<not> is_operator ''hello''
     \<and> Filter E (Obj 0 [(''hello'', Str ''universe'')]) =
         Inr \<lparr>query_of = Obj 0 [(''hello'', Str ''universe'')],
              stack_of = [Qry [Test (Some C_eq) (Raw (Str ''universe''))] (Some ''hello'')]\<rparr>
     \<and> Filter E (Obj 1 [(''hello'', Obj 2 [(''$eq'', Str ''universe'')])]) =
         Inr \<lparr>query_of = Obj 1 [(''hello'', Obj 2 [(''$eq'', Str ''universe'')])],
              stack_of = [Qry [Test (Some C_eq) (Raw (Str ''universe''))] (Some ''hello'')]\<rparr>"
    by blast
qed



text \<open>
  C7 (the specification's claim; the code breaks it): \<^verbatim>\<open>$size\<close> is true exactly when the
  subject is a sized collection whose length equals the argument, also for the argument
  \<^verbatim>\<open>0\<close> and the empty sequence. The code tests \<^verbatim>\<open>a.length && b\<close> for truthiness before it
  compares, and \<^verbatim>\<open>0\<close> is falsy: \<^verbatim>\<open>$size([], 0)\<close> is false although the length of
  \<^verbatim>\<open>[]\<close> is \<^verbatim>\<open>0\<close>.
\<close>

theorem size_of_empty_array_with_zero:
  "c_size E (Arr r []) (Num 0) = False
   \<and> apply_fn E C_size (Arr r []) (Num 0) = Inr False
   \<and> js_length (Arr r []) = Inr (Num 0)"
  by (simp add: c_size_def)

text \<open>
  C8: when every top-level key of an expression is an operator token, every element of the
  compiled stack has no path, so \<^verbatim>\<open>testFilter\<close> hands the record itself to the tests.
  The filter of \<^verbatim>\<open>{$lt: 10, $gt: 5}\<close> accepts \<^verbatim>\<open>8\<close> and rejects \<^verbatim>\<open>4\<close> and \<^verbatim>\<open>11\<close>.
\<close>

theorem root_operators_scenario:
  "(list_all (\<lambda>e. is_operator (fst e)) (entries q) \<longrightarrow> Filter E q = Inr f \<longrightarrow>
      map path_of (stack_of f) = replicate (length (entries q)) None)
   \<and> Filter E (Obj r [(''$lt'', Num 10), (''$gt'', Num 5)]) =
      Inr \<lparr>query_of = Obj r [(''$lt'', Num 10), (''$gt'', Num 5)],
           stack_of =
             [Qry [Test (Some C_lt) (Raw (Num 10)), Test (Some C_gt) (Raw (Num 5))] None,
              Qry [Test (Some C_lt) (Raw (Num 10)), Test (Some C_gt) (Raw (Num 5))] None]\<rparr>
   \<and> Filter_test E \<lparr>query_of = Obj r [(''$lt'', Num 10), (''$gt'', Num 5)],
           stack_of =
             [Qry [Test (Some C_lt) (Raw (Num 10)), Test (Some C_gt) (Raw (Num 5))] None,
              Qry [Test (Some C_lt) (Raw (Num 10)), Test (Some C_gt) (Raw (Num 5))] None]\<rparr>
        (Num 8) = Inr True
   \<and> Filter_test E \<lparr>query_of = Obj r [(''$lt'', Num 10), (''$gt'', Num 5)],
           stack_of =
             [Qry [Test (Some C_lt) (Raw (Num 10)), Test (Some C_gt) (Raw (Num 5))] None,
              Qry [Test (Some C_lt) (Raw (Num 10)), Test (Some C_gt) (Raw (Num 5))] None]\<rparr>
        (Num 4) = Inr False
   \<and> Filter_test E \<lparr>query_of = Obj r [(''$lt'', Num 10), (''$gt'', Num 5)],
           stack_of =
             [Qry [Test (Some C_lt) (Raw (Num 10)), Test (Some C_gt) (Raw (Num 5))] None,
              Qry [Test (Some C_lt) (Raw (Num 10)), Test (Some C_gt) (Raw (Num 5))] None]\<rparr>
        (Num 11) = Inr False"
proof -
  have general: "list_all (\<lambda>e. is_operator (fst e)) (entries q) \<longrightarrow> Filter E q = Inr f \<longrightarrow>
      map path_of (stack_of f) = replicate (length (entries q)) None"
    using parseQuery_loop_operator_paths [of "entries q" E q "stack_of f"]
    by (auto simp: Filter_def split: sum.splits)
  show ?thesis
    apply (intro conjI general)
       apply (simp add: Filter_def comparators_def TRAVERSABLE_def)
      apply (simp_all add: Filter_test_def callFn_def c_lt_def c_gt_def js_less_numbers)
    done
qed

theorem root_operators_scenario_witness:
  "\<forall>E. list_all (\<lambda>e. is_operator (fst e)) (entries (Obj 0 [(''$lt'', Num 10), (''$gt'', Num 5)]))
     \<and> map path_of
         [Qry [Test (Some C_lt) (Raw (Num 10)), Test (Some C_gt) (Raw (Num 5))] None,
          Qry [Test (Some C_lt) (Raw (Num 10)), Test (Some C_gt) (Raw (Num 5))] None] =
       [None, None]
     \<and> Filter_test E \<lparr>query_of = Obj 0 [(''$lt'', Num 10), (''$gt'', Num 5)],
           stack_of =
             [Qry [Test (Some C_lt) (Raw (Num 10)), Test (Some C_gt) (Raw (Num 5))] None,
              Qry [Test (Some C_lt) (Raw (Num 10)), Test (Some C_gt) (Raw (Num 5))] None]\<rparr>
        (Num 8) = Inr True"
proof
  fix E :: env
  let ?q = "Obj 0 [(''$lt'', Num 10), (''$gt'', Num 5)]"
  let ?s = "[Qry [Test (Some C_lt) (Raw (Num 10)), Test (Some C_gt) (Raw (Num 5))] None,
          Qry [Test (Some C_lt) (Raw (Num 10)), Test (Some C_gt) (Raw (Num 5))] None]"
  note th = root_operators_scenario [of ?q E "\<lparr>query_of = ?q, stack_of = ?s\<rparr>" 0]
  have ops: "list_all (\<lambda>e. is_operator (fst e)) (entries ?q)" by simp
  from th have comp: "Filter E ?q = Inr \<lparr>query_of = ?q, stack_of = ?s\<rparr>" by blast
  from th ops comp have paths: "map path_of ?s = [None, None]" by simp
  from th have t8: "Filter_test E \<lparr>query_of = ?q, stack_of = ?s\<rparr> (Num 8) = Inr True" by blast
  show "list_all (\<lambda>e. is_operator (fst e)) (entries ?q) \<and> map path_of ?s = [None, None]
     \<and> Filter_test E \<lparr>query_of = ?q, stack_of = ?s\<rparr> (Num 8) = Inr True"
    by (intro conjI ops paths t8)
qed

text \<open>
  C9: the empty expression \<^verbatim>\<open>{}\<close> compiles to the empty stack. Its \<^verbatim>\<open>test\<close> is true on
  every record, \<^verbatim>\<open>subset\<close> returns all elements of the array, \<^verbatim>\<open>pass\<close> returns true for
  each of them, and \<^verbatim>\<open>index\<close> returns every index.
\<close>

theorem empty_query_matches_all:
  "Filter E (Obj r []) = Inr \<lparr>query_of = Obj r [], stack_of = []\<rparr>
   \<and> Filter_test E \<lparr>query_of = Obj r [], stack_of = []\<rparr> data = Inr True
   \<and> Filter_subset E \<lparr>query_of = Obj r [], stack_of = []\<rparr> (Arr r' A) = Inr A
   \<and> Filter_pass E \<lparr>query_of = Obj r [], stack_of = []\<rparr> (Arr r' A) =
        Inr (replicate (length A) True)
   \<and> Filter_index E \<lparr>query_of = Obj r [], stack_of = []\<rparr> (Arr r' A) = Inr [0..<length A]"
  by (simp add: Filter_def Filter_test_def Filter_subset_def Filter_pass_def Filter_index_def
      pass_loop_empty index_loop_empty subset_loop_empty)



end
